theory Spec2Isabelle
  imports Main
begin

section \<open>The grading endpoint: RouteHandler.postGradingTask\<close>

text \<open>
  Source: \<^verbatim>\<open>src/grader/src/server/RouteHandler.ts\<close>. The handler is an async function that
  talks to the file system, to git and to the docker daemon. Every awaited call either
  resolves with a value or rejects; the outcome of each call is a field of the environment
  \<open>env\<close>, so the handler is a function of the request and of what the outside world does.
  Logging, the path and URL strings that are only handed to the outside world, the socket
  listener (\<^verbatim>\<open>getSocket(..).then\<close>, never awaited) and the unawaited \<^verbatim>\<open>fs.writeFile\<close> of the
  truncated log have no influence on the response and are left out. The constructors
  (\<^verbatim>\<open>Repository\<close>, \<^verbatim>\<open>DockerContainer\<close>, \<^verbatim>\<open>ContainerFirewall\<close>) are taken not to throw, and
  \<^verbatim>\<open>cntr.id\<close> to be set once \<^verbatim>\<open>cntr.create\<close> has resolved.
\<close>

subsection \<open>Errors, requests and the response body\<close>

text \<open>A thrown value: a \<^verbatim>\<open>TypeError\<close> from reading a property of \<^verbatim>\<open>undefined\<close> or
  \<^verbatim>\<open>null\<close>, or the rejection of an awaited external call.\<close>

datatype exn = TypeError | Rejected string

text \<open>\<^verbatim>\<open>req.body\<close> is untyped (\<^verbatim>\<open>any\<close>) and only cast to \<^verbatim>\<open>IGradeTask\<close>: an object the handler
  dereferences may be missing, which is \<open>None\<close> here. \<^verbatim>\<open>assn.commit\<close>, \<^verbatim>\<open>soln.branch\<close> and
  \<^verbatim>\<open>container.logSize\<close> are tested against \<^verbatim>\<open>undefined\<close> by the source itself.\<close>

record assn_ref =
  assn_url :: "string option"
  commit :: "string option"

record soln_ref =
  soln_url :: "string option"
  branch :: "string option"

record container_cfg =
  image :: string
  timeout :: int
  logSize :: "nat option"

record grade_task =
  execId :: string
  assnId :: string
  assn :: "assn_ref option"
  soln :: "soln_ref option"
  container :: "container_cfg option"

record request =
  body :: "grade_task option"

text \<open>\<^verbatim>\<open>IGradeReport\<close>: the handler reads \<^verbatim>\<open>feedback\<close> and passes the rest through unread
  (the numeric scores are not represented).\<close>

record grade_report =
  passNames :: "string list"
  failNames :: "string list"
  errorNames :: "string list"
  skipNames :: "string list"
  gr_feedback :: string

text \<open>\<^verbatim>\<open>IContainerOutput\<close>, the body of the response. \<^verbatim>\<open>state\<close> is a string in the source.\<close>

record container_output =
  commitUrl :: "string option"
  timestamp :: int
  report :: "grade_report option"
  feedback :: string
  postbackOnComplete :: bool
  custom :: "(string \<times> string) list"
  attachments :: "string list"
  state :: string

subsection \<open>The outside world\<close>

text \<open>
  What each external call does when the handler makes it. \<open>exits_at\<close> is the time in
  milliseconds, counted from the registration of the timer, at which the container exits by
  itself and the continuation of \<^verbatim>\<open>await cntr.wait()\<close> runs; \<open>None\<close> is a container that never
  exits by itself. \<open>wait_code stopped\<close> is what \<^verbatim>\<open>cntr.wait()\<close> settles with once the
  container is gone, already passed through \<^verbatim>\<open>Number(cmdOut)\<close> (\<open>None\<close> is \<^verbatim>\<open>NaN\<close>); the
  argument says whether the timer's \<^verbatim>\<open>cntr.stop()\<close> ended the container. \<open>read_report\<close> is
  \<^verbatim>\<open>fs.readJson\<close> of report.json (\<open>Inr None\<close> is the JSON value \<^verbatim>\<open>null\<close>).

  None of the awaits has a timeout of its own, and the timer is registered only after the
  preparation. \<open>stalled\<close> lists the operations whose promise never settles, whatever the
  field of the operation says. It is read for the operations the handler awaits in sequence
  (directories, clones, checkouts, create, start, inspect, socket start, logs, report
  read); whether \<^verbatim>\<open>cntr.wait()\<close> settles is given by \<open>exits_at\<close> and the stop, and
  \<^verbatim>\<open>fs.readdirSync\<close> is synchronous. \<open>cntr_stop = Inr ()\<close> is a stop that ends the
  container; a stop that rejects or never settles does not.
\<close>

text \<open>The external operations the handler issues, in the order it issues them.\<close>

datatype action =
  Mkdirs | CloneAssn | CheckoutAssn | Readdir | CloneSoln | CheckoutSoln
  | Create | Start | Inspect | SockStart | Wait | Stop | Logs | ReadReport

record env =
  now :: int
  mkdirs :: "exn + unit"
  assn_clone :: "exn + unit"
  assn_checkout :: "exn + unit"
  readdir :: "exn + unit"
  soln_clone :: "exn + unit"
  soln_checkout :: "exn + unit"
  cntr_create :: "exn + unit"
  cntr_start :: "exn + unit"
  cntr_inspect :: "exn + string"
  sock_listening :: bool
  sock_start :: "exn + unit"
  exits_at :: "nat option"
  cntr_stop :: "exn + unit"
  wait_code :: "bool \<Rightarrow> exn + int option"
  cntr_logs :: "exn + string"
  read_report :: "exn + grade_report option"
  stalled :: "action list"

text \<open>An awaited computation resolves, throws, or never settles.\<close>

datatype 'a outcome = Done 'a | Threw exn | Pending

type_synonym 'a run = "action list \<times> 'a outcome"

text \<open>An awaited external call: it is issued, and its promise resolves, rejects or, when
  the operation is stalled, never settles.\<close>

definition call :: "env \<Rightarrow> action \<Rightarrow> exn + 'a \<Rightarrow> 'a run" where
  "call e a r =
     ([a], if a \<in> set (stalled e) then Pending
           else (case r of Inl x \<Rightarrow> Threw x | Inr v \<Rightarrow> Done v))"

text \<open>A synchronous external call (\<^verbatim>\<open>fs.readdirSync\<close>): it returns or throws.\<close>

definition callSync :: "action \<Rightarrow> exn + 'a \<Rightarrow> 'a run" where
  "callSync a r = ([a], case r of Inl x \<Rightarrow> Threw x | Inr v \<Rightarrow> Done v)"

definition pure :: "'a \<Rightarrow> 'a run" where
  "pure x = ([], Done x)"

definition throw :: "exn \<Rightarrow> 'a run" where
  "throw e = ([], Threw e)"

text \<open>Sequencing inside one \<^verbatim>\<open>try\<close> block: the first throw (or an await that never
  settles) ends the block.\<close>

definition andThen :: "'a run \<Rightarrow> ('a \<Rightarrow> 'b run) \<Rightarrow> 'b run" where
  "andThen m f =
     (case m of
        (tr, Done x) \<Rightarrow> (case f x of (tr', r) \<Rightarrow> (tr @ tr', r))
      | (tr, Threw e) \<Rightarrow> (tr, Threw e)
      | (tr, Pending) \<Rightarrow> (tr, Pending))"

text \<open>Reading a property of a possibly missing object.\<close>

definition deref :: "'a option \<Rightarrow> 'a run" where
  "deref x = (case x of None \<Rightarrow> throw TypeError | Some v \<Rightarrow> pure v)"

subsection \<open>The timer and the wait\<close>

text \<open>Node's \<^verbatim>\<open>setTimeout\<close> replaces a delay above \<open>2^31 - 1\<close> (and one below 1) by 1 ms.\<close>

definition timer_delay :: "int \<Rightarrow> int" where
  "timer_delay t = (if t > 2147483647 \<or> t < 1 then 1 else t)"

text \<open>
  \<^verbatim>\<open>if (timeout > 0) setTimeout(async () => { if (!didFinish) { didTimeout = true; await cntr.stop(); } }, timeout)\<close>.
  The callback finds \<^verbatim>\<open>didFinish\<close> still false when it runs before the continuation of the
  wait. The timer is registered before \<^verbatim>\<open>cntr.wait()\<close> is called, and when both fall on the
  same millisecond the callback runs first.
\<close>

definition timer_preempts :: "env \<Rightarrow> int \<Rightarrow> bool" where
  "timer_preempts e t =
     (0 < t \<and> (case exits_at e of None \<Rightarrow> True | Some d \<Rightarrow> timer_delay t \<le> int d))"

text \<open>
  \<^verbatim>\<open>const [, cmdOut] = await cntr.wait(); cntrCode = Number(cmdOut); didFinish = true;\<close>
  together with the timer. The result is \<open>(didTimeout, cntrCode)\<close>. When the callback runs
  first it sets \<^verbatim>\<open>didTimeout\<close> and calls \<^verbatim>\<open>cntr.stop()\<close>; a stop that succeeds ends the
  container, a stop that rejects is an unhandled rejection inside the callback and the wait
  goes on until the container exits by itself, if it ever does. The trace records the
  operations issued up to the response; a timer that fires after a rejected wait (which
  leaves \<^verbatim>\<open>didFinish\<close> false) calls \<^verbatim>\<open>cntr.stop()\<close> only after the response has been sent.
\<close>

definition settle :: "bool \<Rightarrow> exn + int option \<Rightarrow> (bool \<times> int option) outcome" where
  "settle didTimeout r = (case r of Inl x \<Rightarrow> Threw x | Inr c \<Rightarrow> Done (didTimeout, c))"

definition await_container :: "env \<Rightarrow> int \<Rightarrow> (bool \<times> int option) run" where
  "await_container e t =
     (if timer_preempts e t then
        (case cntr_stop e of
           Inr _ \<Rightarrow> ([Wait, Stop], settle True (wait_code e True))
         | Inl _ \<Rightarrow>
             (case exits_at e of
                None \<Rightarrow> ([Wait, Stop], Pending)
              | Some _ \<Rightarrow> ([Wait, Stop], settle True (wait_code e False))))
      else
        (case exits_at e of
           None \<Rightarrow> ([Wait], Pending)
         | Some _ \<Rightarrow> ([Wait], settle False (wait_code e False))))"

subsection \<open>The handler\<close>

text \<open>\<^verbatim>\<open>if (typeof ref !== `undefined`) { await repo.checkout(ref); }\<close>\<close>

definition checkout_if :: "env \<Rightarrow> string option \<Rightarrow> action \<Rightarrow> exn + unit \<Rightarrow> unit run" where
  "checkout_if e r a res = (case r of None \<Rightarrow> pure () | Some _ \<Rightarrow> call e a res)"

text \<open>
  The body of the outer \<^verbatim>\<open>try\<close> from line 55 to the registration of the socket listener
  (line 130): directories, the two clones, the container's creation and start. It yields
  \<^verbatim>\<open>body.container\<close>, which the timer reads next. \<^verbatim>\<open>body.assn.url.replace\<close> and
  \<^verbatim>\<open>body.soln.url.replace\<close> throw on a missing url.
\<close>

definition prepare :: "env \<Rightarrow> grade_task \<Rightarrow> container_cfg run" where
  "prepare e b =
     andThen (call e Mkdirs (mkdirs e)) (\<lambda>_.
     andThen (deref (assn b)) (\<lambda>a.
     andThen (deref (assn_url a)) (\<lambda>_.
     andThen (call e CloneAssn (assn_clone e)) (\<lambda>_.
     andThen (checkout_if e (commit a) CheckoutAssn (assn_checkout e)) (\<lambda>_.
     andThen (callSync Readdir (readdir e)) (\<lambda>_.
     andThen (deref (soln b)) (\<lambda>s.
     andThen (deref (soln_url s)) (\<lambda>_.
     andThen (call e CloneSoln (soln_clone e)) (\<lambda>_.
     andThen (checkout_if e (branch s) CheckoutSoln (soln_checkout e)) (\<lambda>_.
     andThen (deref (container b)) (\<lambda>c.
     andThen (call e Create (cntr_create e)) (\<lambda>_.
     andThen (call e Start (cntr_start e)) (\<lambda>_.
     andThen (call e Inspect (cntr_inspect e)) (\<lambda>_.
     andThen (if sock_listening e then pure () else call e SockStart (sock_start e)) (\<lambda>_.
     pure c)))))))))))))))"

text \<open>
  The whole body of the outer \<^verbatim>\<open>try\<close> up to \<^verbatim>\<open>Log.info("Route Done")\<close> (line 158): the
  preparation, the timer and the wait, then \<^verbatim>\<open>await cntr.logs()\<close>. It yields the local
  variable \<^verbatim>\<open>state\<close> (\<^verbatim>\<open>undefined\<close> unless \<^verbatim>\<open>didTimeout\<close>) and \<^verbatim>\<open>cntrCode\<close>.
\<close>

definition process :: "env \<Rightarrow> grade_task \<Rightarrow> (string option \<times> int option) run" where
  "process e b =
     andThen (prepare e b) (\<lambda>c.
     andThen (await_container e (timeout c)) (\<lambda>(didTimeout, cntrCode).
     andThen (call e Logs (cntr_logs e)) (\<lambda>_.
     pure (if didTimeout then Some ''TIMEOUT'' else None, cntrCode))))"

text \<open>
  The inner \<^verbatim>\<open>try\<close>/\<^verbatim>\<open>catch\<close> (lines 161 to 177), which mutates \<^verbatim>\<open>out\<close>. Reading
  \<^verbatim>\<open>report.feedback\<close> of a \<^verbatim>\<open>null\<close> report throws after \<^verbatim>\<open>out.report\<close> has been assigned.
  The block cannot throw; it yields \<open>None\<close> when \<^verbatim>\<open>await fs.readJson\<close> never settles.
\<close>

definition generate_response ::
  "env \<Rightarrow> string option \<Rightarrow> int option \<Rightarrow> container_output \<Rightarrow>
     action list \<times> container_output option" where
  "generate_response e st cntrCode out =
     (if st = Some ''TIMEOUT'' then
        ([], Some (out\<lparr>feedback := ''Container did not complete in the allotted time.'',
                        postbackOnComplete := True, state := ''TIMEOUT''\<rparr>))
      else if ReadReport \<in> set (stalled e) then ([ReadReport], None)
      else
        (case read_report e of
           Inl _ \<Rightarrow>
             ([ReadReport],
              Some (out\<lparr>feedback := ''Failed to read grade report.'',
                         state := ''INVALID_REPORT''\<rparr>))
         | Inr None \<Rightarrow>
             ([ReadReport],
              Some (out\<lparr>report := None, feedback := ''Failed to read grade report.'',
                         state := ''INVALID_REPORT''\<rparr>))
         | Inr (Some r) \<Rightarrow>
             ([ReadReport],
              Some (out\<lparr>report := Some r, feedback := gr_feedback r,
                         postbackOnComplete := (cntrCode \<noteq> Some 0), state := ''SUCCESS''\<rparr>))))"

text \<open>The initialiser of \<^verbatim>\<open>out\<close> (lines 43 to 52) stands before the \<^verbatim>\<open>try\<close>: it reads
  \<^verbatim>\<open>req.body.assn.url\<close>.\<close>

definition init_out :: "env \<Rightarrow> request \<Rightarrow> exn + (grade_task \<times> container_output)" where
  "init_out e req =
     (case body req of
        None \<Rightarrow> Inl TypeError
      | Some b \<Rightarrow>
          (case assn b of
             None \<Rightarrow> Inl TypeError
           | Some a \<Rightarrow>
               Inr (b, \<lparr>commitUrl = assn_url a, timestamp = now e, report = None,
                        feedback = [], postbackOnComplete = False, custom = [],
                        attachments = [], state = ''SUCCESS''\<rparr>)))"

text \<open>What the caller of the handler sees: \<^verbatim>\<open>res.json(code, out)\<close>, an exception that
  leaves the handler, or nothing at all because an await never settles.\<close>

datatype reply = Response nat container_output | Propagated exn | NoResponse

definition postGradingTask :: "env \<Rightarrow> request \<Rightarrow> action list \<times> reply" where
  "postGradingTask e req =
     (case init_out e req of
        Inl x \<Rightarrow> ([], Propagated x)
      | Inr (b, out) \<Rightarrow>
          (case process e b of
             (tr, Done (st, cntrCode)) \<Rightarrow>
               (case generate_response e st cntrCode out of
                  (tr', Some out') \<Rightarrow> (tr @ tr', Response 200 out')
                | (tr', None) \<Rightarrow> (tr @ tr', NoResponse))
           | (tr, Threw x) \<Rightarrow>
               (tr, Response 200 (out\<lparr>feedback := ''Error running container.'', state := ''FAIL''\<rparr>))
           | (tr, Pending) \<Rightarrow> (tr, NoResponse)))"

subsection \<open>The order of the external operations\<close>



subsection \<open>Concrete requests and environments\<close>

text \<open>A well-formed task with a timeout of five minutes, and a world in which every call
  settles and succeeds and the container exits by itself with code 0 after two seconds.\<close>

definition cfg0 :: container_cfg where
  "cfg0 = \<lparr>image = ''grader:latest'', timeout = 300000, logSize = None\<rparr>"

definition task0 :: grade_task where
  "task0 =
     \<lparr>execId = ''e1'', assnId = ''d0'',
      assn = Some \<lparr>assn_url = Some ''https://github.com/org/repo'', commit = Some ''abe1b09''\<rparr>,
      soln = Some \<lparr>soln_url = Some ''https://github.com/org/soln'', branch = None\<rparr>,
      container = Some cfg0\<rparr>"

definition req0 :: request where
  "req0 = \<lparr>body = Some task0\<rparr>"

definition report0 :: grade_report where
  "report0 =
     \<lparr>passNames = [''p1''], failNames = [], errorNames = [], skipNames = [],
      gr_feedback = ''Test execution complete.''\<rparr>"

definition env0 :: env where
  "env0 =
     \<lparr>now = 1516559187579, mkdirs = Inr (), assn_clone = Inr (), assn_checkout = Inr (),
      readdir = Inr (), soln_clone = Inr (), soln_checkout = Inr (), cntr_create = Inr (),
      cntr_start = Inr (), cntr_inspect = Inr ''172.28.2.5'', sock_listening = False,
      sock_start = Inr (), exits_at = Some 2000, cntr_stop = Inr (),
      wait_code = (\<lambda>stopped. Inr (Some (if stopped then 137 else 0))),
      cntr_logs = Inr ''ok'', read_report = Inr (Some report0), stalled = []\<rparr>"

text \<open>The response body as its initialiser leaves it for \<open>req0\<close>.\<close>

definition out0 :: container_output where
  "out0 =
     \<lparr>commitUrl = Some ''https://github.com/org/repo'', timestamp = 1516559187579,
      report = None, feedback = [], postbackOnComplete = False, custom = [],
      attachments = [], state = ''SUCCESS''\<rparr>"



text \<open>The container exits with code 1 and leaves no readable report.\<close>

definition env_no_report :: env where
  "env_no_report =
     env0\<lparr>wait_code := (\<lambda>_. Inr (Some 1)), read_report := Inl (Rejected ''ENOENT'')\<rparr>"


text \<open>The container exits by itself with code 1 and leaves a readable report.\<close>

definition env_exit1 :: env where
  "env_exit1 = env0\<lparr>wait_code := (\<lambda>_. Inr (Some 1))\<rparr>"

text \<open>Every call would succeed, but the clone of the assignment never settles.\<close>

definition env_clone_stalls :: env where
  "env_clone_stalls = env0\<lparr>stalled := [CloneAssn]\<rparr>"


section \<open>The feedback policy of the scheduler\<close>

text \<open>
  The scheduler (\<^verbatim>\<open>GithubAutoTest\<close>, \<^verbatim>\<open>handleCommentEvent\<close>) is exercised by
  \<^verbatim>\<open>src/autotest/core/test/AutoTestSpec.ts\<close> with the records of
  \<^verbatim>\<open>src/packages/autotest/test/TestData.ts\<close>, but its own source is not among the files.
  The definitions of this section follow the specification's sections 3, 4.1, 4.4 and 6.
\<close>

subsection \<open>Data\<close>

text \<open>Modelled from the spec: the CommitTarget of section 3 (the fields of
  \<^verbatim>\<open>TestData.pushEventA\<close>); the class that declares it is missing.\<close>

record commit_target =
  org :: string
  repoId :: string
  delivId :: string
  commitSHA :: string
  commitURL :: string
  cloneURL :: string
  postbackURL :: string
  personId :: "string option"
  botMentioned :: bool
  eventTime :: int

text \<open>Modelled from the spec: "Identity for deduplication = (repoId, commitSHA, delivId)".\<close>

type_synonym identity = "string \<times> string \<times> string"

definition identity :: "commit_target \<Rightarrow> identity" where
  "identity t = (repoId t, commitSHA t, delivId t)"

text \<open>Modelled from the spec: the inbound comment event of section 6, "same shape with
  personId set"; an identity field may be missing from the webhook payload (section 4.1).\<close>

record comment_event =
  ce_org :: string
  ce_repoId :: "string option"
  ce_delivId :: "string option"
  ce_commitSHA :: "string option"
  ce_commitURL :: string
  ce_cloneURL :: string
  ce_postbackURL :: string
  ce_personId :: string
  ce_botMentioned :: bool
  ce_timestamp :: int

text \<open>Modelled from the spec: the AutoTestResult of section 3, reduced to what the policy
  reads (the terminal state, the stored feedback text, the completion time).\<close>

record auto_test_result =
  res_state :: string
  res_feedback :: string
  res_completed :: int

text \<open>Modelled from the spec: the FeedbackGiven ledger entry of section 3 (the fields of
  \<^verbatim>\<open>TestData.feedbackRecordA\<close>).\<close>

record feedback_given =
  fg_personId :: string
  fg_delivId :: string
  fg_commitURL :: string
  fg_timestamp :: int

text \<open>Modelled from the spec: the configuration value of section 9 ("treat window length
  and staff exemption as configuration values"): the bot's account, the deliverables open
  for grading, the staff, the grace window in milliseconds and the limit.\<close>

record config =
  botName :: string
  gradable :: "string \<Rightarrow> bool"
  isStaff :: "string \<Rightarrow> bool"
  graceWindow :: int
  quotaLimit :: nat

text \<open>Modelled from the spec: what the policy consults (section 4.4: "consults ResultStore
  + CommitQueue + quota state"). The queue's two tiers and the in-flight set hold the
  commit targets of their jobs, \<open>results\<close> is \<^verbatim>\<open>getResult\<close>, \<open>ledger\<close> the append-only
  FeedbackGiven ledger, \<open>requests\<close> the comment requests registered for an answer on
  completion, \<open>outbox\<close> the log of \<^verbatim>\<open>Notifier.post\<close> calls.\<close>

record scheduler =
  standing :: "commit_target list"
  express :: "commit_target list"
  inflight :: "commit_target list"
  results :: "identity \<rightharpoonup> auto_test_result"
  ledger :: "feedback_given list"
  requests :: "commit_target list"
  outbox :: "(commit_target \<times> string) list"

subsection \<open>EventIngestor\<close>

text \<open>Modelled from the spec: \<^verbatim>\<open>ingestComment\<close> of section 4.1. It rejects an event missing
  an identity field or whose deliverable is unknown or closed, a comment that does not
  mention the bot, and a comment from the bot's own account.\<close>

definition ingestComment :: "config \<Rightarrow> comment_event \<Rightarrow> commit_target option" where
  "ingestComment cfg ev =
     (case (ce_repoId ev, ce_commitSHA ev, ce_delivId ev) of
        (Some r, Some c, Some d) \<Rightarrow>
          if gradable cfg d \<and> ce_botMentioned ev \<and> ce_personId ev \<noteq> botName cfg then
            Some \<lparr>org = ce_org ev, repoId = r, delivId = d, commitSHA = c,
                  commitURL = ce_commitURL ev, cloneURL = ce_cloneURL ev,
                  postbackURL = ce_postbackURL ev, personId = Some (ce_personId ev),
                  botMentioned = ce_botMentioned ev, eventTime = ce_timestamp ev\<rparr>
          else None
      | _ \<Rightarrow> None)"

subsection \<open>Outbound messages\<close>

text \<open>Modelled from the spec: the \<^verbatim>\<open>{H}\<close> and \<^verbatim>\<open>{M}\<close> of the wait message are written as
  decimal numbers.\<close>

function show_nat :: "nat \<Rightarrow> string" where
  "show_nat n =
     (if n < 10 then [''0123456789'' ! n]
      else show_nat (n div 10) @ [''0123456789'' ! (n mod 10)])"
  by pat_completeness auto
termination
  by (relation "measure id") auto

declare show_nat.simps [simp del]

text \<open>Modelled from the spec: the literal outbound messages of section 6.\<close>

definition msg_not_queued :: string where
  "msg_not_queued = ''This commit is has not been queued; please make and push a new commit.''"

definition msg_processing :: "string \<Rightarrow> string" where
  "msg_processing d =
     ''This commit is still queued for processing against '' @ d @
     ''. Your results will be posted here as soon as they are ready.''"

text \<open>Modelled from the spec: "You must wait {H} hours and {M} minutes before requesting
  feedback.", with the remaining wait in milliseconds split into whole hours and the whole
  minutes of the rest.\<close>

definition msg_wait :: "int \<Rightarrow> string" where
  "msg_wait ms =
     ''You must wait '' @ show_nat (nat (ms div 3600000)) @ '' hours and '' @
     show_nat (nat ((ms mod 3600000) div 60000)) @ '' minutes before requesting feedback.''"

subsection \<open>FeedbackPolicy\<close>

text \<open>Modelled from the spec: the contract of section 4.4,
  \<^verbatim>\<open>evaluate(commentTarget) -> {kind, message, charge: bool}\<close>, with the five response
  classes of the decision table.\<close>

datatype response_kind = NOT_QUEUED | PROCESSING | RESULT | CACHED_FREE | RATE_LIMITED

record policy_response =
  kind :: response_kind
  message :: string
  charge :: bool

text \<open>Modelled from the spec: "a job for this identity is queued or in-flight".\<close>

definition queuedOrInflight :: "scheduler \<Rightarrow> identity \<Rightarrow> bool" where
  "queuedOrInflight s i \<longleftrightarrow> i \<in> identity ` set (standing s @ express s @ inflight s)"

text \<open>Modelled from the spec: "requester already has a FeedbackGiven record for this exact
  commit+deliverable".\<close>

definition alreadyGiven :: "scheduler \<Rightarrow> commit_target \<Rightarrow> string \<Rightarrow> bool" where
  "alreadyGiven s t p \<longleftrightarrow>
     (\<exists>f \<in> set (ledger s).
        fg_personId f = p \<and> fg_delivId f = delivId t \<and> fg_commitURL f = commitURL t)"

text \<open>Modelled from the spec: the "FeedbackGiven records for (person, deliverable) within
  the configured grace window": the timestamps of the charges whose window has not yet
  run out at the time \<open>tnow\<close> of the request.\<close>

definition chargesInWindow :: "config \<Rightarrow> scheduler \<Rightarrow> string \<Rightarrow> string \<Rightarrow> int \<Rightarrow> int list" where
  "chargesInWindow cfg s p d tnow =
     map fg_timestamp
       (filter (\<lambda>f. fg_personId f = p \<and> fg_delivId f = d \<and> tnow < fg_timestamp f + graceWindow cfg)
          (ledger s))"

text \<open>Modelled from the spec: the "oldest charge" of a list of charge timestamps (\<open>None\<close>
  for no charge at all).\<close>

fun oldest :: "int list \<Rightarrow> int option" where
  "oldest [] = None"
| "oldest (x # xs) = (case oldest xs of None \<Rightarrow> Some x | Some y \<Rightarrow> Some (min x y))"

text \<open>Modelled from the spec: the remaining wait time
  "(window_start_of_oldest_charge + window_length) - now"; nothing remains to wait for
  when no charge lies in the window.\<close>

definition remainingWait :: "config \<Rightarrow> int list \<Rightarrow> int \<Rightarrow> int" where
  "remainingWait cfg ws tnow =
     (case oldest ws of None \<Rightarrow> 0 | Some t0 \<Rightarrow> (t0 + graceWindow cfg) - tnow)"

text \<open>Modelled from the spec: \<^verbatim>\<open>FeedbackPolicy.evaluate\<close>, the decision table of section 4.4,
  steps 1 to 3 in order, for the comment target \<open>t\<close> of requester \<open>p\<close>; the time of the
  request is the event's timestamp. Staff are exempt from the quota, that is, never over
  it.\<close>

definition evaluate :: "config \<Rightarrow> scheduler \<Rightarrow> commit_target \<Rightarrow> string \<Rightarrow> policy_response" where
  "evaluate cfg s t p =
     (case results s (identity t) of
        None \<Rightarrow>
          if queuedOrInflight s (identity t) then
            \<lparr>kind = PROCESSING, message = msg_processing (delivId t), charge = False\<rparr>
          else
            \<lparr>kind = NOT_QUEUED, message = msg_not_queued, charge = False\<rparr>
      | Some r \<Rightarrow>
          if alreadyGiven s t p then
            \<lparr>kind = CACHED_FREE, message = res_feedback r, charge = False\<rparr>
          else
            (let ws = chargesInWindow cfg s p (delivId t) (eventTime t) in
             if isStaff cfg p \<or> length ws < quotaLimit cfg then
               \<lparr>kind = RESULT, message = res_feedback r, charge = True\<rparr>
             else
               \<lparr>kind = RATE_LIMITED,
                message = msg_wait (remainingWait cfg ws (eventTime t)), charge = False\<rparr>))"

subsection \<open>Scheduler.handleCommentEvent\<close>

text \<open>Modelled from the spec: "has not already requested this commit".\<close>

definition alreadyRequested :: "scheduler \<Rightarrow> commit_target \<Rightarrow> string \<Rightarrow> bool" where
  "alreadyRequested s t p \<longleftrightarrow>
     (\<exists>q \<in> set (requests s). identity q = identity t \<and> personId q = Some p)"

text \<open>Modelled from the spec: the effects of an evaluated comment (section 4.4 and the data
  flow of section 2): the message goes to the Notifier, a charge appends one FeedbackGiven
  record for (person, deliverable, commit URL) stamped with the event's time, and a
  still-processing request of a requester who is not staff and has not requested this
  commit before is registered.\<close>

definition respond :: "config \<Rightarrow> scheduler \<Rightarrow> commit_target \<Rightarrow> string \<Rightarrow> scheduler" where
  "respond cfg s t p =
     (let r = evaluate cfg s t p;
          s1 = s\<lparr>outbox := outbox s @ [(t, message r)]\<rparr>;
          s2 = (if charge r then
                  s1\<lparr>ledger := ledger s1 @
                       [\<lparr>fg_personId = p, fg_delivId = delivId t, fg_commitURL = commitURL t,
                         fg_timestamp = eventTime t\<rparr>]\<rparr>
                else s1)
      in if kind r = PROCESSING \<and> \<not> isStaff cfg p \<and> \<not> alreadyRequested s t p then
           s2\<lparr>requests := requests s2 @ [t]\<rparr>
         else s2)"

text \<open>Modelled from the spec: \<^verbatim>\<open>handleCommentEvent\<close>, "Comment event \<rightarrow> EventIngestor \<rightarrow>
  FeedbackPolicy.evaluate \<rightarrow> immediate Notifier.post, or silent registration"; a rejected
  event has no side effect. The optional promotion of a staff requester's job to the express
  tier is not represented.\<close>

definition handleCommentEvent :: "config \<Rightarrow> scheduler \<Rightarrow> comment_event \<Rightarrow> scheduler" where
  "handleCommentEvent cfg s ev =
     (case ingestComment cfg ev of
        None \<Rightarrow> s
      | Some t \<Rightarrow> respond cfg s t (ce_personId ev))"

subsection \<open>The records of the test data\<close>

text \<open>\<^verbatim>\<open>TestData.commentRecordUserA\<close> as an inbound event, and the same comment not addressed
  to the bot.\<close>

definition commentRecordUserA :: comment_event where
  "commentRecordUserA =
     \<lparr>ce_org = ''310'', ce_repoId = Some ''d0_team999'', ce_delivId = Some ''d1'',
      ce_commitSHA = Some ''abe1b0918b872997de4c4d2baf4c263f8d4c6dc2'',
      ce_commitURL = ''https://github.ugrad.cs.ubc.ca/CPSC310-2017W-T2/d0_team999/commit/abe1b0918b872997de4c4d2baf4c263f8d4c6dc2'',
      ce_cloneURL = ''https://cloneURL'', ce_postbackURL = ''EMPTY'',
      ce_personId = ''cs310test'', ce_botMentioned = True, ce_timestamp = 1516472873288\<rparr>"

definition commentNotAddressed :: comment_event where
  "commentNotAddressed = commentRecordUserA\<lparr>ce_botMentioned := False\<rparr>"

definition targetUserA :: commit_target where
  "targetUserA =
     \<lparr>org = ''310'', repoId = ''d0_team999'', delivId = ''d1'',
      commitSHA = ''abe1b0918b872997de4c4d2baf4c263f8d4c6dc2'',
      commitURL = ''https://github.ugrad.cs.ubc.ca/CPSC310-2017W-T2/d0_team999/commit/abe1b0918b872997de4c4d2baf4c263f8d4c6dc2'',
      cloneURL = ''https://cloneURL'', postbackURL = ''EMPTY'',
      personId = Some ''cs310test'', botMentioned = True, eventTime = 1516472873288\<rparr>"

text \<open>A course whose deliverables are all open, with the staff account of the test data, a
  grace window of twelve hours and a limit of one charge per window.\<close>

definition cfg310 :: config where
  "cfg310 =
     \<lparr>botName = ''autobot'', gradable = (\<lambda>_. True), isStaff = (\<lambda>p. p = ''staff''),
      graceWindow = 43200000, quotaLimit = 1\<rparr>"

text \<open>The state after \<^verbatim>\<open>data.clearData()\<close>.\<close>

definition emptyScheduler :: scheduler where
  "emptyScheduler =
     \<lparr>standing = [], express = [], inflight = [], results = Map.empty, ledger = [],
      requests = [], outbox = []\<rparr>"





section \<open>Properties of the grading endpoint\<close>

subsection \<open>No operation is issued twice\<close>

lemma andThen_Done_iff:
  "andThen m f = (tr, Done y) \<longleftrightarrow>
     (\<exists>tr1 x tr2. m = (tr1, Done x) \<and> f x = (tr2, Done y) \<and> tr = tr1 @ tr2)"
  by (cases m; cases "snd m") (auto simp: andThen_def split: prod.splits)


















subsection \<open>The shape of a run\<close>

lemma postGradingTask_cases:
  assumes "init_out e req = Inr (b, out)"
  shows "(snd (process e b) = Pending \<and> snd (postGradingTask e req) = NoResponse) \<or>
         (\<exists>x. snd (process e b) = Threw x \<and>
              snd (postGradingTask e req) =
                Response 200 (out\<lparr>feedback := ''Error running container.'', state := ''FAIL''\<rparr>)) \<or>
         (\<exists>st c. snd (process e b) = Done (st, c) \<and>
              ((snd (generate_response e st c out) = None \<and>
                snd (postGradingTask e req) = NoResponse) \<or>
               (\<exists>out'. snd (generate_response e st c out) = Some out' \<and>
                       snd (postGradingTask e req) = Response 200 out')))"
  using assms
  by (cases "process e b"; cases "snd (process e b)")
     (auto simp: postGradingTask_def split: prod.splits option.splits)



lemma await_container_Done:
  assumes "await_container e t = (tr, Done (dt, c))"
  shows "dt = timer_preempts e t \<and> (\<not> dt \<longrightarrow> wait_code e False = Inr c)"
  using assms
  by (auto simp: await_container_def settle_def split: if_splits sum.splits option.splits)











lemma Done_andThen:
  "(\<And>x. \<forall>tr c. f x = (tr, Done c) \<longrightarrow> P c) \<Longrightarrow> \<forall>tr c. andThen m f = (tr, Done c) \<longrightarrow> P c"
  by (auto simp: andThen_Done_iff)

lemma Done_deref:
  "(\<And>x. v = Some x \<Longrightarrow> \<forall>tr c. f x = (tr, Done c) \<longrightarrow> P c)
     \<Longrightarrow> \<forall>tr c. andThen (deref v) f = (tr, Done c) \<longrightarrow> P c"
  by (auto simp: andThen_Done_iff deref_def pure_def throw_def split: option.splits)

lemma prepare_Done_container: "prepare e b = (tr, Done c) \<Longrightarrow> container b = Some c"
proof -
  have "\<forall>tr c. prepare e b = (tr, Done c) \<longrightarrow> container b = Some c"
    unfolding prepare_def
    by ((rule Done_deref | rule Done_andThen)+) (simp add: pure_def)
  then show "prepare e b = (tr, Done c) \<Longrightarrow> container b = Some c" by blast
qed

text \<open>Once the preparation has succeeded, the rest of the outer \<^verbatim>\<open>try\<close> is the wait and the
  log retrieval.\<close>

lemma process_after_prepare:
  assumes "prepare e b = (tr0, Done c)"
  shows "process e b =
     (case await_container e (timeout c) of
        (tr1, Done (dt, code)) \<Rightarrow>
          (if Logs \<in> set (stalled e) then (tr0 @ tr1 @ [Logs], Pending)
           else
             (case cntr_logs e of
                Inl x \<Rightarrow> (tr0 @ tr1 @ [Logs], Threw x)
              | Inr _ \<Rightarrow>
                  (tr0 @ tr1 @ [Logs], Done (if dt then Some ''TIMEOUT'' else None, code))))
      | (tr1, Threw x) \<Rightarrow> (tr0 @ tr1, Threw x)
      | (tr1, Pending) \<Rightarrow> (tr0 @ tr1, Pending))"
  using assms
  by (auto simp: process_def andThen_def call_def pure_def split: prod.splits outcome.splits sum.splits)

lemma process_Done:
  assumes "process e b = (tr, Done (st, code))"
  shows "\<exists>tr0 c tr1 dt. prepare e b = (tr0, Done c) \<and>
           await_container e (timeout c) = (tr1, Done (dt, code)) \<and>
           (\<exists>l. cntr_logs e = Inr l) \<and> Logs \<notin> set (stalled e) \<and>
           st = (if dt then Some ''TIMEOUT'' else None)"
proof -
  from assms obtain tr0 c tr' where p: "prepare e b = (tr0, Done c)"
    unfolding process_def andThen_Done_iff by blast
  obtain tr1 r1 where aw: "await_container e (timeout c) = (tr1, r1)"
    by (cases "await_container e (timeout c)")
  note eq = process_after_prepare[OF p, unfolded aw]
  show ?thesis
  proof (cases r1)
    case (Done x)
    obtain dt cc where x: "x = (dt, cc)" by (cases x)
    have ns: "Logs \<notin> set (stalled e)"
    proof
      assume "Logs \<in> set (stalled e)"
      with eq Done x have "snd (process e b) = Pending" by simp
      with assms show False by simp
    qed
    show ?thesis
    proof (cases "cntr_logs e")
      case (Inl y)
      with eq Done x ns have "snd (process e b) = Threw y" by simp
      with assms show ?thesis by simp
    next
      case (Inr l)
      with eq Done x ns
      have "process e b = (tr0 @ tr1 @ [Logs], Done (if dt then Some ''TIMEOUT'' else None, cc))"
        by simp
      with assms have "st = (if dt then Some ''TIMEOUT'' else None)" and "cc = code"
        by simp_all
      with p aw Done x Inr ns show ?thesis by blast
    qed
  next
    case (Threw y)
    with eq have "snd (process e b) = Threw y" by simp
    with assms show ?thesis by simp
  next
    case Pending
    with eq have "snd (process e b) = Pending" by simp
    with assms show ?thesis by simp
  qed
qed





subsection \<open>Timeout\<close>




subsection \<open>Containment of failures\<close>




subsection \<open>postbackOnComplete\<close>

text \<open>
  Claim C10, as the code has it. In every outcome the endpoint returns: a TIMEOUT outcome
  (the timer ran before the container finished) has \<open>postbackOnComplete\<close> true; a SUCCESS
  outcome, which is the one whose grade report was read, has it true if and only if the
  container's exit code is not 0, so it is false on exit code 0; and it is true in no other
  outcome: INVALID_REPORT and FAIL outcomes keep the initial \<^verbatim>\<open>false\<close>.
\<close>

theorem postbackOnComplete_exactly:
  assumes resp: "postGradingTask e req = (tr, Response code out)"
  shows "(state out = ''TIMEOUT'' \<longrightarrow>
            postbackOnComplete out \<and>
            (\<exists>b cfg. body req = Some b \<and> container b = Some cfg \<and> timer_preempts e (timeout cfg))) \<and>
         (state out = ''SUCCESS'' \<longrightarrow>
            (\<exists>r c. read_report e = Inr (Some r) \<and> report out = Some r \<and>
                   wait_code e False = Inr c \<and> (postbackOnComplete out \<longleftrightarrow> c \<noteq> Some 0))) \<and>
         (postbackOnComplete out \<longrightarrow> state out = ''TIMEOUT'' \<or> state out = ''SUCCESS'')"
proof -
  from resp obtain b o0 where init: "init_out e req = Inr (b, o0)"
    by (auto simp: postGradingTask_def split: sum.splits)
  from init have body: "body req = Some b" and o0: "\<not> postbackOnComplete o0"
    by (auto simp: init_out_def split: option.splits)
  from postGradingTask_cases[OF init] resp
  consider (fail) "out = o0\<lparr>feedback := ''Error running container.'', state := ''FAIL''\<rparr>"
    | (gen) st c where "snd (process e b) = Done (st, c)"
        "snd (generate_response e st c o0) = Some out"
    by auto
  then show ?thesis
  proof cases
    case fail
    with o0 show ?thesis by simp
  next
    case gen
    obtain trp where "process e b = (trp, Done (st, c))"
      using gen(1) by (cases "process e b") simp
    from process_Done[OF this] obtain tr0 cfg tr1 dt where
      prep: "prepare e b = (tr0, Done cfg)" and
      aw: "await_container e (timeout cfg) = (tr1, Done (dt, c))"
      and st: "st = (if dt then Some ''TIMEOUT'' else None)" by blast
    from await_container_Done[OF aw]
    have dt: "dt = timer_preempts e (timeout cfg)" and w: "\<not> dt \<longrightarrow> wait_code e False = Inr c"
      by simp_all
    from prep have cfg: "container b = Some cfg" by (rule prepare_Done_container)
    show ?thesis
    proof (cases dt)
      case True
      with st gen(2) dt body cfg show ?thesis by (auto simp: generate_response_def)
    next
      case False
      with w have wc: "wait_code e False = Inr c" by simp
      from False st gen(2) o0 wc show ?thesis
        by (auto simp: generate_response_def split: sum.splits option.splits if_splits)
    qed
  qed
qed

text \<open>
  Claim C10 as stated ("true exactly when the run did not complete normally") fails: the
  container exits with code 1 and leaves no readable report, the outcome is INVALID_REPORT,
  and \<open>postbackOnComplete\<close> is false.
\<close>

theorem abnormal_run_without_postback:
  "wait_code env_no_report False = Inr (Some 1) \<and>
   read_report env_no_report = Inl (Rejected ''ENOENT'') \<and>
   postGradingTask env_no_report req0 =
     ([Mkdirs, CloneAssn, CheckoutAssn, Readdir, CloneSoln, Create, Start, Inspect, SockStart,
       Wait, Logs, ReadReport],
      Response 200 (out0\<lparr>feedback := ''Failed to read grade report.'',
                          state := ''INVALID_REPORT''\<rparr>)) \<and>
   \<not> postbackOnComplete (out0\<lparr>feedback := ''Failed to read grade report.'',
                                state := ''INVALID_REPORT''\<rparr>)"
  by code_simp

theorem postbackOnComplete_exactly_witness:
  "postGradingTask env_exit1 req0 =
     ([Mkdirs, CloneAssn, CheckoutAssn, Readdir, CloneSoln, Create, Start, Inspect, SockStart,
       Wait, Logs, ReadReport],
      Response 200 (out0\<lparr>report := Some report0, feedback := ''Test execution complete.'',
                          postbackOnComplete := True, state := ''SUCCESS''\<rparr>)) \<and>
   read_report env_exit1 = Inr (Some report0) \<and>
   wait_code env_exit1 False = Inr (Some 1)"
proof -
  have resp: "postGradingTask env_exit1 req0 =
     ([Mkdirs, CloneAssn, CheckoutAssn, Readdir, CloneSoln, Create, Start, Inspect, SockStart,
       Wait, Logs, ReadReport],
      Response 200 (out0\<lparr>report := Some report0, feedback := ''Test execution complete.'',
                          postbackOnComplete := True, state := ''SUCCESS''\<rparr>))"
    by code_simp
  from postbackOnComplete_exactly[OF resp]
  have "\<exists>r c. read_report env_exit1 = Inr (Some r) \<and>
           report (out0\<lparr>report := Some report0, feedback := ''Test execution complete.'',
                          postbackOnComplete := True, state := ''SUCCESS''\<rparr>) = Some r \<and>
           wait_code env_exit1 False = Inr c \<and> c \<noteq> Some 0"
    by simp
  then have "read_report env_exit1 = Inr (Some report0)"
    by auto
  moreover have "wait_code env_exit1 False = Inr (Some 1)"
    by (simp add: env_exit1_def)
  ultimately show ?thesis using resp by simp
qed

section \<open>Properties of the feedback policy\<close>



subsection \<open>Comment on a commit that was never queued\<close>

text \<open>
  Claim C4, as the policy has it. For a comment event that ingestion accepts (identity
  fields present, deliverable open for grading, the bot mentioned, not written by the bot)
  on a commit identity with no result and no queued or in-flight job, the policy answers
  NOT_QUEUED without a charge, and handling the comment posts exactly one message, "This
  commit is has not been queued; please make and push a new commit.", appends no
  FeedbackGiven record and registers no request.
\<close>

theorem not_queued_response:
  assumes acc: "ingestComment cfg ev = Some t"
    and nores: "results s (identity t) = None"
    and noq: "\<not> queuedOrInflight s (identity t)"
  shows "evaluate cfg s t (ce_personId ev) =
           \<lparr>kind = NOT_QUEUED,
            message = ''This commit is has not been queued; please make and push a new commit.'',
            charge = False\<rparr> \<and>
         outbox (handleCommentEvent cfg s ev) =
           outbox s @ [(t, ''This commit is has not been queued; please make and push a new commit.'')] \<and>
         ledger (handleCommentEvent cfg s ev) = ledger s \<and>
         requests (handleCommentEvent cfg s ev) = requests s"
  using assms
  by (simp add: handleCommentEvent_def respond_def evaluate_def msg_not_queued_def Let_def)

theorem not_queued_response_witness:
  "outbox (handleCommentEvent cfg310 emptyScheduler commentRecordUserA) =
     [(targetUserA, ''This commit is has not been queued; please make and push a new commit.'')] \<and>
   ledger (handleCommentEvent cfg310 emptyScheduler commentRecordUserA) = []"
proof -
  have acc: "ingestComment cfg310 commentRecordUserA = Some targetUserA"
    by code_simp
  have nores: "results emptyScheduler (identity targetUserA) = None"
    by (simp add: emptyScheduler_def)
  have noq: "\<not> queuedOrInflight emptyScheduler (identity targetUserA)"
    by (simp add: queuedOrInflight_def emptyScheduler_def)
  from not_queued_response[OF acc nores noq] show ?thesis
    by (simp add: emptyScheduler_def)
qed

text \<open>
  Claim C4 as the specification states it fails: the comment of the test data, not addressed
  to the bot, on a commit identity that was never pushed is ignored by ingestion, and no
  message is posted.
\<close>

theorem unaddressed_comment_gets_no_message:
  "ce_repoId commentNotAddressed = Some ''d0_team999'' \<and>
   results emptyScheduler
     (''d0_team999'', ''abe1b0918b872997de4c4d2baf4c263f8d4c6dc2'', ''d1'') = None \<and>
   \<not> queuedOrInflight emptyScheduler
     (''d0_team999'', ''abe1b0918b872997de4c4d2baf4c263f8d4c6dc2'', ''d1'') \<and>
   outbox (handleCommentEvent cfg310 emptyScheduler commentNotAddressed) = []"
  by (simp add: handleCommentEvent_def ingestComment_def commentNotAddressed_def
        commentRecordUserA_def emptyScheduler_def queuedOrInflight_def)

subsection \<open>Quota\<close>




end
